theory Spec2Isabelle
  imports Main "HOL-Library.Word"
begin

section \<open>Levels (logger/level.go)\<close>

text \<open>
  \<^verbatim>\<open>type Level int8\<close>: a signed 8-bit integer. The named levels take the
  values of the zerolog constants they are converted from: Debug 0, Info 1, Warn 2,
  Error 3, Fatal 4, Panic 5, Trace -1. zerolog has two more values of its own level
  type, NoLevel 6 and Disabled 7, which this package does not name.
\<close>

type_synonym Level = "8 word"

definition DebugLevel :: Level where "DebugLevel = 0"
definition InfoLevel :: Level where "InfoLevel = 1"
definition WarnLevel :: Level where "WarnLevel = 2"
definition ErrorLevel :: Level where "ErrorLevel = 3"
definition FatalLevel :: Level where "FatalLevel = 4"
definition PanicLevel :: Level where "PanicLevel = 5"
definition TraceLevel :: Level where "TraceLevel = - 1"
definition NoLevel :: Level where "NoLevel = 6"
definition Disabled :: Level where "Disabled = 7"

lemmas level_defs =
  DebugLevel_def InfoLevel_def WarnLevel_def ErrorLevel_def FatalLevel_def
  PanicLevel_def TraceLevel_def NoLevel_def Disabled_def

text \<open>The closed set of named levels, in the order of their values.\<close>

definition named_levels :: "Level list" where
  "named_levels =
     [TraceLevel, DebugLevel, InfoLevel, WarnLevel, ErrorLevel, FatalLevel, PanicLevel]"

text \<open>Go compares values of an int8 type as signed integers.\<close>

definition level_less :: "Level \<Rightarrow> Level \<Rightarrow> bool" where
  "level_less a b = (sint a < sint b)"

subsection \<open>strings.ToLower\<close>

text \<open>
  Go strings are byte sequences, and so is \<^typ>\<open>string\<close>. \<^verbatim>\<open>strings.ToLower\<close>
  has two paths. A string of ASCII bytes only has each of \<^verbatim>\<open>'A'..'Z'\<close> moved to
  lower case and every other byte kept. A string with a byte of value 128 or more goes
  through \<^verbatim>\<open>strings.Map(unicode.ToLower, s)\<close>, which depends on the Unicode
  tables of the Go library; that path is the parameter \<open>mapLower\<close>.
\<close>

definition isASCII :: "string \<Rightarrow> bool" where
  "isASCII s = (\<forall>c \<in> set s. (of_char c :: nat) < 128)"

definition asciiLower :: "char \<Rightarrow> char" where
  "asciiLower c =
     (if (of_char (CHR ''A'') :: nat) \<le> of_char c \<and> (of_char c :: nat) \<le> of_char (CHR ''Z'')
      then char_of ((of_char c :: nat) + 32) else c)"

definition ToLower :: "(string \<Rightarrow> string) \<Rightarrow> string \<Rightarrow> string" where
  "ToLower mapLower s = (if isASCII s then map asciiLower s else mapLower s)"

subsection \<open>ParseLevel and String\<close>

text \<open>
  An error value made by \<^verbatim>\<open>fmt.Errorf\<close>, with its message. The only one made here
  is \<^verbatim>\<open>fmt.Errorf("invalid log level: %s", levelStr)\<close>: the verb \<^verbatim>\<open>%s\<close> on a
  string operand writes the operand as it is.
\<close>

datatype go_error = Errorf string

text \<open>
  \<^verbatim>\<open>ParseLevel\<close> lowers its argument, then goes through the cases of the switch in
  their order; \<open>None\<close> is the nil error.
\<close>

definition ParseLevel :: "(string \<Rightarrow> string) \<Rightarrow> string \<Rightarrow> Level \<times> go_error option" where
  "ParseLevel mapLower levelStr0 =
     (let levelStr = ToLower mapLower levelStr0 in
      if levelStr = ''debug'' then (DebugLevel, None)
      else if levelStr = ''info'' then (InfoLevel, None)
      else if levelStr = ''warn'' \<or> levelStr = ''warning'' then (WarnLevel, None)
      else if levelStr = ''error'' then (ErrorLevel, None)
      else if levelStr = ''fatal'' then (FatalLevel, None)
      else if levelStr = ''panic'' then (PanicLevel, None)
      else if levelStr = ''trace'' then (TraceLevel, None)
      else (InfoLevel, Some (Errorf (''invalid log level: '' @ levelStr))))"

definition String :: "Level \<Rightarrow> string" where
  "String l =
     (if l = DebugLevel then ''debug''
      else if l = InfoLevel then ''info''
      else if l = WarnLevel then ''warn''
      else if l = ErrorLevel then ''error''
      else if l = FatalLevel then ''fatal''
      else if l = PanicLevel then ''panic''
      else if l = TraceLevel then ''trace''
      else ''unknown'')"

text \<open>The names the switch of \<^verbatim>\<open>ParseLevel\<close> recognises, after lowering.\<close>

definition level_names :: "string list" where
  "level_names =
     [''debug'', ''info'', ''warn'', ''warning'', ''error'', ''fatal'', ''panic'', ''trace'']"

section \<open>fmt.Sprintf with an empty operand list\<close>

text \<open>
  \<^verbatim>\<open>LogBuilder.Msg\<close> hands its template to \<^verbatim>\<open>fmt.Sprintf\<close> whatever the number
  of operands. What \<^verbatim>\<open>Sprintf\<close> does with operands depends on their dynamic types and
  is a parameter of the model further down; what it does with no operand at all is
  modelled in full here, from \<^verbatim>\<open>doPrintf\<close> of the Go library with \<^verbatim>\<open>len(a) = 0\<close>.
  The format is scanned from the left. Bytes other than \<^verbatim>\<open>%\<close> are copied. After a
  \<^verbatim>\<open>%\<close> come flags, an optional argument index \<^verbatim>\<open>[n]\<close>, a width, a precision and
  the verb. With no operand the fast path for simple verbs is never taken, no index is
  in range, \<^verbatim>\<open>*\<close> finds no integer operand, and every verb other than \<^verbatim>\<open>%\<close> reports
  its operand missing. The functions work on the rest of the format instead of an index
  into it; \<^verbatim>\<open>parsenum\<close> and \<^verbatim>\<open>parseArgNumber\<close> keep the indices of the source.
\<close>

text \<open>
  \<^verbatim>\<open>parsenum(s, start, end)\<close> reads a decimal number from \<open>s[start:end]\<close> and
  returns the number, whether there was one, and the index after it. An empty range, or
  a number that has passed one million before its last digit, gives
  \<open>(0, False, end)\<close>.
\<close>

definition tooLarge :: "nat \<Rightarrow> bool" where
  "tooLarge x = (1000000 < x)"

definition is_digit :: "char \<Rightarrow> bool" where
  "is_digit c = ((48::nat) \<le> of_char c \<and> (of_char c :: nat) \<le> 57)"

fun scan_digits :: "string \<Rightarrow> nat \<Rightarrow> bool \<Rightarrow> nat \<Rightarrow> (nat \<times> bool \<times> nat) option" where
  "scan_digits [] num isnum newi = Some (num, isnum, newi)"
| "scan_digits (c # cs) num isnum newi =
     (if is_digit c
      then (if tooLarge num then None
            else scan_digits cs (num * 10 + ((of_char c :: nat) - 48)) True (newi + 1))
      else Some (num, isnum, newi))"

definition parsenum :: "string \<Rightarrow> nat \<Rightarrow> nat \<Rightarrow> nat \<times> bool \<times> nat" where
  "parsenum s start end' =
     (if end' \<le> start then (0, False, end')
      else (case scan_digits (take (end' - start) (drop start s)) 0 False start of
              None \<Rightarrow> (0, False, end')
            | Some r \<Rightarrow> r))"

text \<open>
  \<^verbatim>\<open>parseArgNumber\<close> is given the format from a \<^verbatim>\<open>[\<close> on. It looks for the
  first \<^verbatim>\<open>]\<close> and returns the index written between the brackets (counted from
  zero), the number of bytes to skip, and whether the brackets held a number and nothing
  else. \<^verbatim>\<open>argNumber\<close> with no operands can never accept the index: at a \<^verbatim>\<open>[\<close> it
  marks the argument number as bad and skips the bytes. It returns the rest of the
  format, the flag that becomes \<^verbatim>\<open>afterIndex\<close>, and \<^verbatim>\<open>goodArgNum\<close>.
\<close>

fun index_from :: "char \<Rightarrow> string \<Rightarrow> nat \<Rightarrow> nat option" where
  "index_from c [] i = None"
| "index_from c (x # xs) i = (if x = c then Some i else index_from c xs (Suc i))"

definition parseArgNumber :: "string \<Rightarrow> int \<times> nat \<times> bool" where
  "parseArgNumber format =
     (if length format < 3 then (0, 1, False)
      else (case index_from (CHR '']'') (drop 1 format) 1 of
              None \<Rightarrow> (0, 1, False)
            | Some i \<Rightarrow>
                (case parsenum format 1 i of
                   (width, ok, newi) \<Rightarrow>
                     if \<not> ok \<or> newi \<noteq> i then (0, i + 1, False)
                     else (int width - 1, i + 1, True))))"

definition argNumber :: "string \<Rightarrow> bool \<Rightarrow> string \<times> bool \<times> bool" where
  "argNumber s goodArgNum =
     (case s of
        [] \<Rightarrow> (s, False, goodArgNum)
      | c # _ \<Rightarrow>
          if c \<noteq> CHR ''['' then (s, False, goodArgNum)
          else (case parseArgNumber s of (index, wid, ok) \<Rightarrow> (drop wid s, ok, False)))"

definition is_flag :: "char \<Rightarrow> bool" where
  "is_flag c = (c = CHR ''#'' \<or> c = CHR ''0'' \<or> c = CHR ''+'' \<or> c = CHR ''-'' \<or> c = CHR '' '')"

text \<open>
  A verb is one rune. \<^verbatim>\<open>utf8.DecodeRuneInString\<close> returns the rune and its width in
  bytes; the model returns the bytes that \<^verbatim>\<open>writeRune\<close> later writes for it, which
  are the bytes read for a well-formed encoding and the encoding of \<^verbatim>\<open>U+FFFD\<close>, with
  width 1, for anything else.
\<close>

definition RuneError :: string where
  "RuneError = [CHR 0xEF, CHR 0xBF, CHR 0xBD]"

definition in_range :: "nat \<Rightarrow> nat \<Rightarrow> char \<Rightarrow> bool" where
  "in_range lo hi c = (lo \<le> of_char c \<and> (of_char c :: nat) \<le> hi)"

definition DecodeRuneInString :: "string \<Rightarrow> string \<times> nat" where
  "DecodeRuneInString s =
     (case s of
        [] \<Rightarrow> (RuneError, 0)
      | s0 # r \<Rightarrow>
          (let b = (of_char s0 :: nat);
               sz = (if b < 0x80 then 1 else if 0xC2 \<le> b \<and> b \<le> 0xDF then 2
                     else if 0xE0 \<le> b \<and> b \<le> 0xEF then 3
                     else if 0xF0 \<le> b \<and> b \<le> 0xF4 then 4 else 0);
               lo = (if b = 0xE0 then 0xA0 else if b = 0xF0 then 0x90 else 0x80);
               hi = (if b = 0xED then 0x9F else if b = 0xF4 then 0x8F else 0xBF)
           in if sz = 0 then (RuneError, 1)
              else if sz = 1 then ([s0], 1)
              else if length s < sz then (RuneError, 1)
              else if \<not> in_range lo hi (s ! 1) then (RuneError, 1)
              else if sz \<le> 2 then (take 2 s, 2)
              else if \<not> in_range 0x80 0xBF (s ! 2) then (RuneError, 1)
              else if sz \<le> 3 then (take 3 s, 3)
              else if \<not> in_range 0x80 0xBF (s ! 3) then (RuneError, 1)
              else (take 4 s, 4)))"

text \<open>
  Width and precision. A \<^verbatim>\<open>*\<close> asks for an integer operand, finds none, and
  writes \<^verbatim>\<open>%!(BADWIDTH)\<close> or \<^verbatim>\<open>%!(BADPREC)\<close>. Each function returns the rest of
  the format, what it wrote, \<^verbatim>\<open>afterIndex\<close> and \<^verbatim>\<open>goodArgNum\<close>.
\<close>

definition width0 :: "string \<Rightarrow> bool \<Rightarrow> bool \<Rightarrow> string \<times> string \<times> bool \<times> bool" where
  "width0 s afterIndex goodArgNum =
     (case s of
        [] \<Rightarrow> (case parsenum s 0 (length s) of
                (wid, widPresent, newi) \<Rightarrow>
                  (drop newi s, [], afterIndex, goodArgNum \<and> \<not> (afterIndex \<and> widPresent)))
      | c # r \<Rightarrow>
          if c = CHR ''*'' then (r, ''%!(BADWIDTH)'', False, goodArgNum)
          else (case parsenum s 0 (length s) of
                  (wid, widPresent, newi) \<Rightarrow>
                    (drop newi s, [], afterIndex, goodArgNum \<and> \<not> (afterIndex \<and> widPresent))))"

definition prec0 :: "string \<Rightarrow> bool \<Rightarrow> bool \<Rightarrow> string \<times> string \<times> bool \<times> bool" where
  "prec0 s afterIndex goodArgNum =
     (case s of
        [] \<Rightarrow> (s, [], afterIndex, goodArgNum)
      | c # r \<Rightarrow>
          if c \<noteq> CHR ''.'' then (s, [], afterIndex, goodArgNum)
          else (case argNumber r (goodArgNum \<and> \<not> afterIndex) of
                  (r1, afterIndex1, good1) \<Rightarrow>
                    (case r1 of
                       [] \<Rightarrow> (case parsenum r1 0 (length r1) of
                               (prec, precPresent, newi) \<Rightarrow> (drop newi r1, [], afterIndex1, good1))
                     | c1 # r2 \<Rightarrow>
                         if c1 = CHR ''*'' then (r2, ''%!(BADPREC)'', False, good1)
                         else (case parsenum r1 0 (length r1) of
                                 (prec, precPresent, newi) \<Rightarrow>
                                   (drop newi r1, [], afterIndex1, good1)))))"

text \<open>
  One verb, from the byte after the \<^verbatim>\<open>%\<close>: what is written for it and the rest of
  the format. A format that ends before the verb writes \<^verbatim>\<open>%!(NOVERB)\<close> and ends
  the loop.
\<close>

definition verb0 :: "string \<Rightarrow> string \<times> string" where
  "verb0 s0 =
     (case argNumber (dropWhile is_flag s0) True of
        (s2, afterIndex2, good2) \<Rightarrow>
     (case width0 s2 afterIndex2 good2 of
        (s3, out3, afterIndex3, good3) \<Rightarrow>
     (case prec0 s3 afterIndex3 good3 of
        (s4, out4, afterIndex4, good4) \<Rightarrow>
     (case (if \<not> afterIndex4 then argNumber s4 good4 else (s4, afterIndex4, good4)) of
        (s5, afterIndex5, good5) \<Rightarrow>
          if s5 = [] then (out3 @ out4 @ ''%!(NOVERB)'', [])
          else (case DecodeRuneInString s5 of
                  (verb, sz) \<Rightarrow>
                    (out3 @ out4 @
                       (if verb = ''%'' then ''%''
                        else if \<not> good5 then ''%!'' @ verb @ ''(BADINDEX)''
                        else ''%!'' @ verb @ ''(MISSING)''),
                     drop sz s5))))))"

text \<open>No step returns more of the format than it was given, so the loop terminates.\<close>

lemma length_argNumber: "length (fst (argNumber s g)) \<le> length s"
  by (auto simp: argNumber_def split: list.splits prod.splits)

lemma length_width0: "length (fst (width0 s a g)) \<le> length s"
  by (auto simp: width0_def split: list.splits prod.splits)

lemma length_prec0: "length (fst (prec0 s a g)) \<le> length s"
proof (cases s)
  case Nil
  then show ?thesis by (simp add: prec0_def)
next
  case (Cons c r)
  show ?thesis
  proof (cases "c = CHR ''.''")
    case False
    with Cons show ?thesis by (simp add: prec0_def)
  next
    case True
    obtain r1 a1 g1 where an: "argNumber r (g \<and> \<not> a) = (r1, a1, g1)"
      by (cases "argNumber r (g \<and> \<not> a)") auto
    have l1: "length r1 \<le> length r"
      using length_argNumber [of r "g \<and> \<not> a"] an by simp
    have "length (fst (prec0 s a g)) \<le> length r1"
      using Cons True an by (simp add: prec0_def split: list.splits prod.splits)
    with l1 Cons show ?thesis by simp
  qed
qed

lemma length_verb0: "length (snd (verb0 s)) \<le> length s"
proof -
  obtain s2 a2 g2 where r2: "argNumber (dropWhile is_flag s) True = (s2, a2, g2)"
    by (cases "argNumber (dropWhile is_flag s) True") auto
  obtain s3 o3 a3 g3 where r3: "width0 s2 a2 g2 = (s3, o3, a3, g3)"
    by (cases "width0 s2 a2 g2") auto
  obtain s4 o4 a4 g4 where r4: "prec0 s3 a3 g3 = (s4, o4, a4, g4)"
    by (cases "prec0 s3 a3 g3") auto
  obtain s5 a5 g5 where r5: "(if \<not> a4 then argNumber s4 g4 else (s4, a4, g4)) = (s5, a5, g5)"
    by (cases "if \<not> a4 then argNumber s4 g4 else (s4, a4, g4)") auto
  have "length s2 \<le> length (dropWhile is_flag s)"
    using length_argNumber [of "dropWhile is_flag s" True] r2 by simp
  then have l2: "length s2 \<le> length s"
    using length_dropWhile_le [of is_flag s] by linarith
  have l3: "length s3 \<le> length s2" using length_width0 [of s2 a2 g2] r3 by simp
  have l4: "length s4 \<le> length s3" using length_prec0 [of s3 a3 g3] r4 by simp
  have l5: "length s5 \<le> length s4"
    using length_argNumber [of s4 g4] r5 by (auto split: if_splits)
  have "length (snd (verb0 s)) \<le> length s5"
    using r2 r3 r4 r5 by (simp add: verb0_def split: prod.splits)
  with l2 l3 l4 l5 show ?thesis by linarith
qed

function doPrintf0 :: "string \<Rightarrow> string" where
  "doPrintf0 [] = []"
| "doPrintf0 (c # cs) =
     (if c \<noteq> CHR ''%'' then c # doPrintf0 cs
      else (case verb0 cs of (out, rest) \<Rightarrow> out @ doPrintf0 rest))"
  by pat_completeness auto
termination
proof (relation "measure length")
  show "wf (measure length)" by simp
next
  fix c :: char and cs :: string
  show "(cs, c # cs) \<in> measure length" by simp
next
  fix c :: char and cs x :: string and xa y
  assume "(xa, y) = verb0 cs"
  then have "y = snd (verb0 cs)" by (metis snd_conv)
  then show "(y, c # cs) \<in> measure length"
    using length_verb0 [of cs] by simp
qed

text \<open>
  \<^verbatim>\<open>fmt.Sprintf(format, a...)\<close>. The parameter \<open>operands\<close> stands for the result
  when there is at least one operand.
\<close>

definition Sprintf :: "(string \<Rightarrow> 'a list \<Rightarrow> string) \<Rightarrow> string \<Rightarrow> 'a list \<Rightarrow> string" where
  "Sprintf operands format a = (if a = [] then doPrintf0 format else operands format a)"

section \<open>The zerolog logger, as far as this package uses it\<close>

text \<open>
  A field value as zerolog encodes it into an event. The level, the timestamp and the
  caller are kept symbolic: \<open>VTime f t\<close> is the instant \<open>t\<close> rendered with the format
  string \<open>f\<close>, \<open>VInterface v\<close> is the encoding of an arbitrary Go value \<open>v\<close>.
\<close>

datatype 'a fvalue =
    VStr string
  | VInt int
  | VBool bool
  | VInterface 'a
  | VLevel Level
  | VTime string nat
  | VCaller string

type_synonym 'a fields = "(string \<times> 'a fvalue) list"

text \<open>
  Destinations (\<^verbatim>\<open>io.Writer\<close>): the standard error stream or any other sink, named
  by a number. A logger writes either to the sink itself (structured encoding) or
  through a \<^verbatim>\<open>zerolog.ConsoleWriter\<close> with fields \<^verbatim>\<open>Out\<close> and \<^verbatim>\<open>TimeFormat\<close>.
\<close>

datatype sink = Stderr | Sink nat

datatype writer = Raw sink | ConsoleWriter sink string

datatype hook = timestampHook | callerHook

record 'a zerolog_Logger =
  zl_w :: writer
  zl_level :: Level
  zl_context :: "'a fields"
  zl_hooks :: "hook list"

text \<open>What an event does once it is written: nothing, \<^verbatim>\<open>os.Exit(1)\<close> or \<^verbatim>\<open>panic(msg)\<close>.\<close>

datatype done_func = done_exit | done_panic

record 'a Event =
  ev_w :: writer
  ev_level :: Level
  ev_buf :: "'a fields"
  ev_done :: "done_func option"
  ev_ch :: "hook list"

text \<open>How a call ends: it returns, the process exits, or it panics with a message.\<close>

datatype 'r outcome = Returns 'r | Exits | Panics string

text \<open>
  zerolog's global level is set to \<^verbatim>\<open>TraceLevel\<close> when the library is initialised,
  and nothing in this package sets it.
\<close>

definition GlobalLevel :: Level where
  "GlobalLevel = TraceLevel"

definition zerolog_New :: "writer \<Rightarrow> 'a zerolog_Logger" where
  "zerolog_New w = \<lparr>zl_w = w, zl_level = TraceLevel, zl_context = [], zl_hooks = []\<rparr>"

definition zl_Level :: "'a zerolog_Logger \<Rightarrow> Level \<Rightarrow> 'a zerolog_Logger" where
  "zl_Level l lvl = l\<lparr>zl_level := lvl\<rparr>"

text \<open>
  \<^verbatim>\<open>Logger.With\<close> copies the context buffer into a fresh one and wraps the logger
  in a \<^verbatim>\<open>Context\<close>; \<^verbatim>\<open>Context.Logger\<close> unwraps it. On values both are the identity.
\<close>

definition zl_With :: "'a zerolog_Logger \<Rightarrow> 'a zerolog_Logger" where
  "zl_With l = l"

definition ctx_Logger :: "'a zerolog_Logger \<Rightarrow> 'a zerolog_Logger" where
  "ctx_Logger c = c"

definition ctx_Timestamp :: "'a zerolog_Logger \<Rightarrow> 'a zerolog_Logger" where
  "ctx_Timestamp c = c\<lparr>zl_hooks := zl_hooks c @ [timestampHook]\<rparr>"

definition ctx_Caller :: "'a zerolog_Logger \<Rightarrow> 'a zerolog_Logger" where
  "ctx_Caller c = c\<lparr>zl_hooks := zl_hooks c @ [callerHook]\<rparr>"

definition ctx_Str :: "string \<Rightarrow> string \<Rightarrow> 'a zerolog_Logger \<Rightarrow> 'a zerolog_Logger" where
  "ctx_Str key val c = c\<lparr>zl_context := zl_context c @ [(key, VStr val)]\<rparr>"

definition ctx_Interface :: "string \<Rightarrow> 'a \<Rightarrow> 'a zerolog_Logger \<Rightarrow> 'a zerolog_Logger" where
  "ctx_Interface key i c = c\<lparr>zl_context := zl_context c @ [(key, VInterface i)]\<rparr>"

definition zl_Output :: "'a zerolog_Logger \<Rightarrow> writer \<Rightarrow> 'a zerolog_Logger" where
  "zl_Output l w =
     (zerolog_New w)\<lparr>zl_level := zl_level l, zl_hooks := zl_hooks l, zl_context := zl_context l\<rparr>"

definition zl_should :: "'a zerolog_Logger \<Rightarrow> Level \<Rightarrow> bool" where
  "zl_should l lvl = (\<not> (level_less lvl (zl_level l) \<or> level_less lvl GlobalLevel))"

definition run_done :: "done_func \<Rightarrow> string \<Rightarrow> 'r outcome" where
  "run_done d msg = (case d of done_exit \<Rightarrow> Exits | done_panic \<Rightarrow> Panics msg)"

text \<open>
  \<^verbatim>\<open>Logger.newEvent\<close>: a level the logger does not admit gives the nil event, after
  running \<^verbatim>\<open>done("")\<close> when there is one; otherwise the event starts with the level
  field and the logger's context.
\<close>

definition zl_newEvent ::
  "'a zerolog_Logger \<Rightarrow> Level \<Rightarrow> done_func option \<Rightarrow> 'a Event option outcome" where
  "zl_newEvent l level d =
     (if \<not> zl_should l level
      then (case d of None \<Rightarrow> Returns None | Some f \<Rightarrow> run_done f [])
      else Returns (Some \<lparr>ev_w = zl_w l, ev_level = level,
              ev_buf = (if level \<noteq> NoLevel then [(''level'', VLevel level)] else [])
                       @ zl_context l,
              ev_done = d, ev_ch = zl_hooks l\<rparr>))"

section \<open>The logger (logger/logger.go)\<close>

text \<open>
  \<^verbatim>\<open>Logger\<close> wraps a \<^verbatim>\<open>zerolog.Logger\<close> value and the service name. Loggers are
  used through pointers (\<^verbatim>\<open>*Logger\<close>), and two of the methods assign to fields of the
  struct, so the model keeps the structs in a store: a pointer is an index into
  \<open>heap\<close>, and an index outside it behaves as the nil pointer.
\<close>

record 'a Logger =
  zl :: "'a zerolog_Logger"
  serviceName :: string

type_synonym ptr = nat

text \<open>One \<^verbatim>\<open>Write\<close> call received by a writer: the encoded event, one line.\<close>

record 'a entry =
  en_writer :: writer
  en_fields :: "'a fields"

text \<open>
  The state a program using the package can observe: the \<^verbatim>\<open>Logger\<close> structs, the
  package-level variable \<^verbatim>\<open>zerolog.TimeFieldFormat\<close>, and everything written so
  far, oldest first.
\<close>

record 'a world =
  heap :: "'a Logger list"
  TimeFieldFormat :: string
  written :: "'a entry list"

text \<open>
  What the Go runtime and library supply at a call: the formatting of operands by
  \<^verbatim>\<open>fmt\<close>, the clock read by \<^verbatim>\<open>zerolog.TimestampFunc\<close>, and the call site found by
  \<^verbatim>\<open>runtime.Caller\<close> (\<open>None\<close> when it finds none).
\<close>

record 'a runtime =
  rt_operands :: "string \<Rightarrow> 'a list \<Rightarrow> string"
  rt_now :: nat
  rt_caller :: "string option"

record Config =
  cfg_Level :: Level
  cfg_Pretty :: bool
  cfg_WithCaller :: bool
  cfg_Output :: "sink option"
  cfg_TimeFormat :: string
  cfg_ServiceName :: string

record 'a LogBuilder =
  lb_logger :: ptr
  lb_event :: "'a Event option"

definition RFC3339 :: string where
  "RFC3339 = ''2006-01-02T15:04:05Z07:00''"

definition DefaultConfig :: Config where
  "DefaultConfig =
     \<lparr>cfg_Level = InfoLevel, cfg_Pretty = False, cfg_WithCaller = True,
      cfg_Output = Some Stderr, cfg_TimeFormat = RFC3339, cfg_ServiceName = []\<rparr>"

definition deref :: "'a world \<Rightarrow> ptr \<Rightarrow> 'a Logger option" where
  "deref w p = (if p < length (heap w) then Some (heap w ! p) else None)"

definition alloc :: "'a Logger \<Rightarrow> 'a world \<Rightarrow> ptr \<times> 'a world" where
  "alloc l w = (length (heap w), w\<lparr>heap := heap w @ [l]\<rparr>)"

definition store :: "ptr \<Rightarrow> 'a Logger \<Rightarrow> 'a world \<Rightarrow> 'a world" where
  "store p l w = w\<lparr>heap := (heap w)[p := l]\<rparr>"

definition nil_dereference :: string where
  "nil_dereference = ''runtime error: invalid memory address or nil pointer dereference''"

text \<open>
  \<^verbatim>\<open>New\<close>. The sink and the service name get their defaults; the time format is
  used as it is, for the console writer and for the package-level variable of zerolog.
\<close>

definition New :: "Config \<Rightarrow> 'a world \<Rightarrow> ptr \<times> 'a world" where
  "New cfg w =
     (let output = (case cfg_Output cfg of None \<Rightarrow> Stderr | Some s \<Rightarrow> s);
          serviceName = (if cfg_ServiceName cfg = [] then ''UNKNOWN-SERVICE''
                         else cfg_ServiceName cfg);
          zctx = zl_With (zl_Level (zerolog_New (Raw output)) (cfg_Level cfg));
          zctx = ctx_Timestamp zctx;
          zctx = ctx_Str ''service'' serviceName zctx;
          zctx = (if cfg_WithCaller cfg then ctx_Caller zctx else zctx);
          zl = (if cfg_Pretty cfg
                then zl_Output (ctx_Logger zctx) (ConsoleWriter output (cfg_TimeFormat cfg))
                else ctx_Logger zctx)
      in alloc \<lparr>zl = zl, serviceName = serviceName\<rparr>
           (w\<lparr>TimeFieldFormat := cfg_TimeFormat cfg\<rparr>))"

definition ServiceName :: "ptr \<Rightarrow> 'a world \<Rightarrow> string outcome" where
  "ServiceName p w =
     (case deref w p of None \<Rightarrow> Panics nil_dereference | Some l \<Rightarrow> Returns (serviceName l))"

definition SetServiceName :: "ptr \<Rightarrow> string \<Rightarrow> 'a world \<Rightarrow> unit outcome \<times> 'a world" where
  "SetServiceName p name w =
     (case deref w p of
        None \<Rightarrow> (Panics nil_dereference, w)
      | Some l \<Rightarrow> (Returns (), store p (l\<lparr>serviceName := name\<rparr>) w))"

definition With :: "ptr \<Rightarrow> 'a world \<Rightarrow> 'a zerolog_Logger outcome" where
  "With p w =
     (case deref w p of None \<Rightarrow> Panics nil_dereference | Some l \<Rightarrow> Returns (zl_With (zl l)))"

text \<open>
  \<^verbatim>\<open>WithFields\<close>. A Go map is ranged over in an order the language leaves open; the
  argument \<open>flds\<close> lists the entries of the map in the order the loop visits them.
\<close>

definition WithFields :: "ptr \<Rightarrow> (string \<times> 'a) list \<Rightarrow> 'a world \<Rightarrow> ptr outcome \<times> 'a world" where
  "WithFields p flds w =
     (case deref w p of
        None \<Rightarrow> (Panics nil_dereference, w)
      | Some l \<Rightarrow>
          (let ctx = zl_With (zl l);
               ctx = fold (\<lambda>(k, v) c. ctx_Interface k v c) flds ctx
           in case alloc \<lparr>zl = ctx_Logger ctx, serviceName = serviceName l\<rparr> w of
                (q, w') \<Rightarrow> (Returns q, w')))"

definition SetLevel :: "ptr \<Rightarrow> Level \<Rightarrow> 'a world \<Rightarrow> unit outcome \<times> 'a world" where
  "SetLevel p level w =
     (case deref w p of
        None \<Rightarrow> (Panics nil_dereference, w)
      | Some l \<Rightarrow> (Returns (), store p (l\<lparr>zl := zl_Level (zl l) level\<rparr>) w))"

definition newLogBuilder :: "ptr \<Rightarrow> 'a Event option \<Rightarrow> 'a LogBuilder" where
  "newLogBuilder p event = \<lparr>lb_logger = p, lb_event = event\<rparr>"

text \<open>
  The seven factories differ in the level and in what zerolog does after the event:
  \<^verbatim>\<open>Fatal\<close> exits and \<^verbatim>\<open>Panic\<close> panics, also when the level is filtered out.
\<close>

definition at_level :: "Level \<Rightarrow> done_func option \<Rightarrow> ptr \<Rightarrow> 'a world \<Rightarrow> 'a LogBuilder outcome" where
  "at_level level d p w =
     (case deref w p of
        None \<Rightarrow> Panics nil_dereference
      | Some l \<Rightarrow>
          (case zl_newEvent (zl l) level d of
             Returns e \<Rightarrow> Returns (newLogBuilder p e)
           | Exits \<Rightarrow> Exits
           | Panics m \<Rightarrow> Panics m))"

definition Debug :: "ptr \<Rightarrow> 'a world \<Rightarrow> 'a LogBuilder outcome" where
  "Debug = at_level DebugLevel None"

definition Info :: "ptr \<Rightarrow> 'a world \<Rightarrow> 'a LogBuilder outcome" where
  "Info = at_level InfoLevel None"

definition Warn :: "ptr \<Rightarrow> 'a world \<Rightarrow> 'a LogBuilder outcome" where
  "Warn = at_level WarnLevel None"

definition Error :: "ptr \<Rightarrow> 'a world \<Rightarrow> 'a LogBuilder outcome" where
  "Error = at_level ErrorLevel None"

definition Fatal :: "ptr \<Rightarrow> 'a world \<Rightarrow> 'a LogBuilder outcome" where
  "Fatal = at_level FatalLevel (Some done_exit)"

definition Panic :: "ptr \<Rightarrow> 'a world \<Rightarrow> 'a LogBuilder outcome" where
  "Panic = at_level PanicLevel (Some done_panic)"

definition Trace :: "ptr \<Rightarrow> 'a world \<Rightarrow> 'a LogBuilder outcome" where
  "Trace = at_level TraceLevel None"

text \<open>
  The setters of the builder (\<^verbatim>\<open>Str\<close>, \<^verbatim>\<open>Int\<close> and \<^verbatim>\<open>Bool\<close> carry the prefix
  \<open>lb_\<close> here) append to the event and return the builder. Every method
  of a nil event does nothing. \<^verbatim>\<open>WithError\<close> takes the text of the error, \<open>None\<close> for
  a nil error, which adds no field.
\<close>

definition ev_append :: "string \<Rightarrow> 'a fvalue \<Rightarrow> 'a LogBuilder \<Rightarrow> 'a LogBuilder" where
  "ev_append key val lb =
     lb\<lparr>lb_event := map_option (\<lambda>e. e\<lparr>ev_buf := ev_buf e @ [(key, val)]\<rparr>) (lb_event lb)\<rparr>"

definition WithError :: "string option \<Rightarrow> 'a LogBuilder \<Rightarrow> 'a LogBuilder" where
  "WithError err lb = (case err of None \<Rightarrow> lb | Some m \<Rightarrow> ev_append ''error'' (VStr m) lb)"

definition AddField :: "string \<Rightarrow> 'a \<Rightarrow> 'a LogBuilder \<Rightarrow> 'a LogBuilder" where
  "AddField key val = ev_append key (VInterface val)"

definition lb_Str :: "string \<Rightarrow> string \<Rightarrow> 'a LogBuilder \<Rightarrow> 'a LogBuilder" where
  "lb_Str key val = ev_append key (VStr val)"

definition lb_Int :: "string \<Rightarrow> int \<Rightarrow> 'a LogBuilder \<Rightarrow> 'a LogBuilder" where
  "lb_Int key val = ev_append key (VInt val)"

definition lb_Bool :: "string \<Rightarrow> bool \<Rightarrow> 'a LogBuilder \<Rightarrow> 'a LogBuilder" where
  "lb_Bool key val = ev_append key (VBool val)"

text \<open>
  The hooks run when the event is finished. The timestamp hook reads the clock and the
  package-level time format at that moment.
\<close>

definition run_hook :: "'a runtime \<Rightarrow> string \<Rightarrow> 'a Event \<Rightarrow> hook \<Rightarrow> 'a Event" where
  "run_hook rt tff e h =
     (case h of
        timestampHook \<Rightarrow> e\<lparr>ev_buf := ev_buf e @ [(''time'', VTime tff (rt_now rt))]\<rparr>
      | callerHook \<Rightarrow>
          (case rt_caller rt of
             None \<Rightarrow> e
           | Some site \<Rightarrow> e\<lparr>ev_buf := ev_buf e @ [(''caller'', VCaller site)]\<rparr>))"

definition ev_write :: "'a Event \<Rightarrow> 'a world \<Rightarrow> 'a world" where
  "ev_write e w =
     (if ev_level e \<noteq> Disabled
      then w\<lparr>written := written w @ [\<lparr>en_writer = ev_w e, en_fields = ev_buf e\<rparr>]\<rparr>
      else w)"

text \<open>
  \<^verbatim>\<open>Event.msg\<close>: the hooks, the message field unless the message is empty, the
  write, and then what \<^verbatim>\<open>done\<close> does.
\<close>

definition ev_msg :: "'a runtime \<Rightarrow> 'a Event \<Rightarrow> string \<Rightarrow> 'a world \<Rightarrow> unit outcome \<times> 'a world" where
  "ev_msg rt e msg w =
     (let e1 = foldl (run_hook rt (TimeFieldFormat w)) e (ev_ch e);
          e2 = (if msg \<noteq> [] then e1\<lparr>ev_buf := ev_buf e1 @ [(''message'', VStr msg)]\<rparr> else e1);
          w' = ev_write e2 w
      in (case ev_done e of None \<Rightarrow> Returns () | Some f \<Rightarrow> run_done f msg, w'))"

definition ev_Msgf ::
  "'a runtime \<Rightarrow> 'a Event option \<Rightarrow> string \<Rightarrow> 'a list \<Rightarrow> 'a world \<Rightarrow> unit outcome \<times> 'a world" where
  "ev_Msgf rt e format v w =
     (case e of
        None \<Rightarrow> (Returns (), w)
      | Some ev \<Rightarrow> ev_msg rt ev (Sprintf (rt_operands rt) format v) w)"

text \<open>\<^verbatim>\<open>LogBuilder.Msg\<close> is one call of \<^verbatim>\<open>Msgf\<close>, with or without operands.\<close>

definition Msg ::
  "'a runtime \<Rightarrow> 'a LogBuilder \<Rightarrow> string \<Rightarrow> 'a list \<Rightarrow> 'a world \<Rightarrow> unit outcome \<times> 'a world" where
  "Msg rt lb msg vals w = ev_Msgf rt (lb_event lb) msg vals w"

text \<open>The direct methods: the factory, then \<^verbatim>\<open>Msg\<close> on what it returns.\<close>

definition then_Msg ::
  "'a runtime \<Rightarrow> 'a LogBuilder outcome \<Rightarrow> string \<Rightarrow> 'a list \<Rightarrow> 'a world \<Rightarrow> unit outcome \<times> 'a world" where
  "then_Msg rt r msg vals w =
     (case r of
        Returns lb \<Rightarrow> Msg rt lb msg vals w
      | Exits \<Rightarrow> (Exits, w)
      | Panics m \<Rightarrow> (Panics m, w))"

definition DebugMsg ::
  "'a runtime \<Rightarrow> ptr \<Rightarrow> string \<Rightarrow> 'a list \<Rightarrow> 'a world \<Rightarrow> unit outcome \<times> 'a world" where
  "DebugMsg rt p msg vals w = then_Msg rt (Debug p w) msg vals w"

definition InfoMsg ::
  "'a runtime \<Rightarrow> ptr \<Rightarrow> string \<Rightarrow> 'a list \<Rightarrow> 'a world \<Rightarrow> unit outcome \<times> 'a world" where
  "InfoMsg rt p msg vals w = then_Msg rt (Info p w) msg vals w"

definition WarnMsg ::
  "'a runtime \<Rightarrow> ptr \<Rightarrow> string \<Rightarrow> 'a list \<Rightarrow> 'a world \<Rightarrow> unit outcome \<times> 'a world" where
  "WarnMsg rt p msg vals w = then_Msg rt (Warn p w) msg vals w"

definition ErrorMsg ::
  "'a runtime \<Rightarrow> ptr \<Rightarrow> string \<Rightarrow> 'a list \<Rightarrow> 'a world \<Rightarrow> unit outcome \<times> 'a world" where
  "ErrorMsg rt p msg vals w = then_Msg rt (Error p w) msg vals w"

definition FatalMsg ::
  "'a runtime \<Rightarrow> ptr \<Rightarrow> string \<Rightarrow> 'a list \<Rightarrow> 'a world \<Rightarrow> unit outcome \<times> 'a world" where
  "FatalMsg rt p msg vals w = then_Msg rt (Fatal p w) msg vals w"

definition PanicMsg ::
  "'a runtime \<Rightarrow> ptr \<Rightarrow> string \<Rightarrow> 'a list \<Rightarrow> 'a world \<Rightarrow> unit outcome \<times> 'a world" where
  "PanicMsg rt p msg vals w = then_Msg rt (Panic p w) msg vals w"

definition TraceMsg ::
  "'a runtime \<Rightarrow> ptr \<Rightarrow> string \<Rightarrow> 'a list \<Rightarrow> 'a world \<Rightarrow> unit outcome \<times> 'a world" where
  "TraceMsg rt p msg vals w = then_Msg rt (Trace p w) msg vals w"

text \<open>Each named level with the direct method that logs at it.\<close>

definition level_methods ::
  "(Level \<times> ('a runtime \<Rightarrow> ptr \<Rightarrow> string \<Rightarrow> 'a list \<Rightarrow> 'a world \<Rightarrow> unit outcome \<times> 'a world)) list" where
  "level_methods =
     [(TraceLevel, TraceMsg), (DebugLevel, DebugMsg), (InfoLevel, InfoMsg),
      (WarnLevel, WarnMsg), (ErrorLevel, ErrorMsg), (FatalLevel, FatalMsg),
      (PanicLevel, PanicMsg)]"

text \<open>The state of a program before it has built any logger.\<close>

definition world0 :: "'a world" where
  "world0 = \<lparr>heap = [], TimeFieldFormat = RFC3339, written = []\<rparr>"

section \<open>Configuration from the environment (logger/env.go)\<close>

text \<open>The process environment is a map from variable names to values.\<close>

definition GetEnvStr :: "(string \<rightharpoonup> string) \<Rightarrow> string \<Rightarrow> string \<Rightarrow> string" where
  "GetEnvStr env key defaultValue = (case env key of Some v \<Rightarrow> v | None \<Rightarrow> defaultValue)"

definition GetEnvBool ::
  "(string \<Rightarrow> string) \<Rightarrow> (string \<rightharpoonup> string) \<Rightarrow> string \<Rightarrow> bool \<Rightarrow> bool" where
  "GetEnvBool mapLower env key defaultValue =
     (case env key of
        Some v \<Rightarrow>
          (let valueStr = ToLower mapLower v
           in valueStr = ''true'' \<or> valueStr = ''yes'' \<or> valueStr = ''1'')
      | None \<Rightarrow> defaultValue)"

definition NewFromEnv ::
  "(string \<Rightarrow> string) \<Rightarrow> (string \<rightharpoonup> string) \<Rightarrow> 'a world \<Rightarrow> ptr \<times> 'a world" where
  "NewFromEnv mapLower env w =
     (let logLevel = GetEnvStr env ''LOG_LEVEL'' ''info'';
          logFormat = GetEnvStr env ''LOG_FORMAT'' ''json'';
          logCallerEnabled = GetEnvBool mapLower env ''LOG_CALLER'' True;
          serviceName = GetEnvStr env ''SERVICE_NAME'' [];
          (level0, err) = ParseLevel mapLower logLevel;
          level = (if err \<noteq> None then InfoLevel else level0);
          cfg = \<lparr>cfg_Level = level,
                 cfg_Pretty = (logFormat = ''pretty'' \<or> logFormat = ''console''),
                 cfg_WithCaller = logCallerEnabled,
                 cfg_Output = None,
                 cfg_TimeFormat = ''2006-01-02T15:04:05.000Z07:00'',
                 cfg_ServiceName = serviceName\<rparr>
      in New cfg w)"

section \<open>Notions used to state the properties\<close>

text \<open>The sink a writer ends in.\<close>

fun sink_of :: "writer \<Rightarrow> sink" where
  "sink_of (Raw s) = s"
| "sink_of (ConsoleWriter s f) = s"

text \<open>The context fields that \<^verbatim>\<open>Context.Interface\<close> makes of a list of entries.\<close>

definition encode_fields :: "(string \<times> 'a) list \<Rightarrow> 'a fields" where
  "encode_fields m = map (\<lambda>(k, v). (k, VInterface v)) m"

text \<open>The fields that a list of hooks adds to an event, given the time format in force.\<close>

definition hook_fields :: "'a runtime \<Rightarrow> string \<Rightarrow> hook list \<Rightarrow> 'a fields" where
  "hook_fields rt tff hs =
     concat (map (\<lambda>h. case h of
                timestampHook \<Rightarrow> [(''time'', VTime tff (rt_now rt))]
              | callerHook \<Rightarrow> (case rt_caller rt of None \<Rightarrow> []
                               | Some site \<Rightarrow> [(''caller'', VCaller site)])) hs)"

definition message_field :: "string \<Rightarrow> 'a fields" where
  "message_field text = (if text \<noteq> [] then [(''message'', VStr text)] else [])"

definition level_field :: "Level \<Rightarrow> 'a fields" where
  "level_field c = (if c \<noteq> NoLevel then [(''level'', VLevel c)] else [])"

text \<open>
  The merge of a baseline with a mapping as the specification words it: the entries
  of the mapping replace the entries of the baseline that have the same key.
\<close>

definition merged_baseline :: "'a fields \<Rightarrow> (string \<times> 'a) list \<Rightarrow> 'a fields" where
  "merged_baseline base m =
     filter (\<lambda>(k, v). k \<notin> set (map fst m)) base @ encode_fields m"

subsection \<open>A small scenario\<close>

text \<open>
  A runtime whose clock reads 7, a structured logger of service \<open>payments\<close> at
  minimum level Warn writing to sink 0, and the world after building it. The logger is
  at address 0.
\<close>

definition ex_rt :: "nat runtime" where
  "ex_rt = \<lparr>rt_operands = (\<lambda>format a. format), rt_now = 7, rt_caller = Some ''main.go:12''\<rparr>"

definition ex_cfg :: Config where
  "ex_cfg =
     \<lparr>cfg_Level = WarnLevel, cfg_Pretty = False, cfg_WithCaller = False,
      cfg_Output = Some (Sink 0), cfg_TimeFormat = RFC3339, cfg_ServiceName = ''payments''\<rparr>"

definition ex_world :: "nat world" where
  "ex_world = snd (New ex_cfg world0)"

text \<open>The world after deriving a child of that logger; the child is at address 1.\<close>

definition ex_child_world :: "nat world" where
  "ex_child_world = snd (WithFields 0 [(''request_id'', 12345)] ex_world)"


text \<open>A configuration that leaves the sink, the service name and the time format out.\<close>

definition ex_cfg_missing :: Config where
  "ex_cfg_missing =
     \<lparr>cfg_Level = InfoLevel, cfg_Pretty = False, cfg_WithCaller = False,
      cfg_Output = None, cfg_TimeFormat = [], cfg_ServiceName = []\<rparr>"

section \<open>Auxiliary facts\<close>

lemma deref_alloc_old: "deref w r = Some x \<Longrightarrow> deref (snd (alloc l w)) r = Some x"
  by (auto simp: deref_def alloc_def nth_append split: if_splits)

lemma deref_alloc_new: "deref (snd (alloc l w)) (fst (alloc l w)) = Some l"
  by (simp add: deref_def alloc_def)

lemma deref_alloc_fresh: "deref w (fst (alloc l w)) = None"
  by (simp add: deref_def alloc_def)

lemma deref_store_other: "q \<noteq> p \<Longrightarrow> deref (store p l w) q = deref w q"
  by (simp add: deref_def store_def)

lemma deref_store_same: "deref w p = Some x \<Longrightarrow> deref (store p l w) p = Some l"
  by (auto simp: deref_def store_def split: if_splits)

lemma fold_ctx_Interface:
  "fold (\<lambda>(k, v) c. ctx_Interface k v c) m c = c\<lparr>zl_context := zl_context c @ encode_fields m\<rparr>"
  by (induction m arbitrary: c) (auto simp: ctx_Interface_def encode_fields_def)

lemma WithFields_result:
  assumes "deref w p = Some l"
  shows "WithFields p m w =
    (Returns (length (heap w)),
     w\<lparr>heap := heap w @ [\<lparr>zl = (zl l)\<lparr>zl_context := zl_context (zl l) @ encode_fields m\<rparr>,
                           serviceName = serviceName l\<rparr>]\<rparr>)"
  using assms by (simp add: WithFields_def fold_ctx_Interface zl_With_def ctx_Logger_def alloc_def Let_def)

lemma WithFields_Returns:
  assumes "WithFields p m w = (Returns c, w1)"
  shows "\<exists>l. deref w p = Some l \<and> c = length (heap w) \<and>
     w1 = w\<lparr>heap := heap w @ [\<lparr>zl = (zl l)\<lparr>zl_context := zl_context (zl l) @ encode_fields m\<rparr>,
                           serviceName = serviceName l\<rparr>]\<rparr>"
proof (cases "deref w p")
  case None
  with assms show ?thesis by (simp add: WithFields_def)
next
  case (Some l)
  with assms WithFields_result [OF Some, of m] show ?thesis by simp
qed

lemma WithFields_fresh:
  assumes "WithFields p m w = (Returns c, w1)"
  shows "c \<noteq> p"
proof -
  from WithFields_Returns [OF assms] obtain l where "deref w p = Some l" "c = length (heap w)"
    by blast
  then show ?thesis by (auto simp: deref_def split: if_splits)
qed


lemma New_result:
  "New cfg w =
     (length (heap w),
      w\<lparr>TimeFieldFormat := cfg_TimeFormat cfg,
        heap := heap w @
          [\<lparr>zl = \<lparr>zl_w = (if cfg_Pretty cfg
                           then ConsoleWriter (case cfg_Output cfg of None \<Rightarrow> Stderr | Some s \<Rightarrow> s)
                                  (cfg_TimeFormat cfg)
                           else Raw (case cfg_Output cfg of None \<Rightarrow> Stderr | Some s \<Rightarrow> s)),
                   zl_level = cfg_Level cfg,
                   zl_context = [(''service'', VStr (if cfg_ServiceName cfg = [] then ''UNKNOWN-SERVICE''
                                               else cfg_ServiceName cfg))],
                   zl_hooks = timestampHook # (if cfg_WithCaller cfg then [callerHook] else [])\<rparr>,
             serviceName = (if cfg_ServiceName cfg = [] then ''UNKNOWN-SERVICE''
                            else cfg_ServiceName cfg)\<rparr>]\<rparr>)"
  by (simp add: New_def Let_def alloc_def zl_With_def zl_Level_def zerolog_New_def
      ctx_Timestamp_def ctx_Str_def ctx_Caller_def ctx_Logger_def zl_Output_def)


lemma run_hook_step:
  "run_hook rt tff e h = e\<lparr>ev_buf := ev_buf e @ hook_fields rt tff [h]\<rparr>"
  by (cases h; cases "rt_caller rt") (simp_all add: run_hook_def hook_fields_def)

lemma hook_fields_Cons:
  "hook_fields rt tff (h # hs) = hook_fields rt tff [h] @ hook_fields rt tff hs"
  by (simp add: hook_fields_def)

lemma foldl_run_hook:
  "foldl (run_hook rt tff) e hs = e\<lparr>ev_buf := ev_buf e @ hook_fields rt tff hs\<rparr>"
proof (induction hs arbitrary: e)
  case Nil
  show ?case by (simp add: hook_fields_def)
next
  case (Cons h hs)
  have "foldl (run_hook rt tff) e (h # hs) = foldl (run_hook rt tff) (run_hook rt tff e h) hs"
    by simp
  also have "\<dots> = (run_hook rt tff e h)\<lparr>ev_buf := ev_buf (run_hook rt tff e h) @ hook_fields rt tff hs\<rparr>"
    by (rule Cons)
  also have "\<dots> = e\<lparr>ev_buf := ev_buf e @ hook_fields rt tff (h # hs)\<rparr>"
    by (simp add: run_hook_step hook_fields_Cons [of rt tff h hs])
  finally show ?case .
qed

lemma ev_msg_result:
  "ev_msg rt e text w =
     ((case ev_done e of None \<Rightarrow> Returns () | Some f \<Rightarrow> run_done f text),
      (if ev_level e \<noteq> Disabled
       then w\<lparr>written := written w @
              [\<lparr>en_writer = ev_w e,
                en_fields = ev_buf e @ hook_fields rt (TimeFieldFormat w) (ev_ch e)
                              @ message_field text\<rparr>]\<rparr>
       else w))"
  by (simp add: ev_msg_def Let_def foldl_run_hook ev_write_def message_field_def)

lemma at_level_then_Msg:
  assumes "deref w p = Some l"
  shows "then_Msg rt (at_level c d p w) msg vs w =
     (if zl_should (zl l) c
      then ((case d of None \<Rightarrow> Returns () | Some f \<Rightarrow> run_done f (Sprintf (rt_operands rt) msg vs)),
            (if c \<noteq> Disabled
             then w\<lparr>written := written w @
                   [\<lparr>en_writer = zl_w (zl l),
                     en_fields = level_field c @ zl_context (zl l)
                       @ hook_fields rt (TimeFieldFormat w) (zl_hooks (zl l))
                       @ message_field (Sprintf (rt_operands rt) msg vs)\<rparr>]\<rparr>
             else w))
      else ((case d of None \<Rightarrow> Returns () | Some f \<Rightarrow> run_done f []), w))"
proof (cases "zl_should (zl l) c")
  case True
  then show ?thesis
    using assms
    by (simp add: at_level_def zl_newEvent_def then_Msg_def Msg_def ev_Msgf_def
        newLogBuilder_def ev_msg_result level_field_def)
next
  case False
  then show ?thesis
    using assms
    by (cases d; cases "the d")
      (simp_all add: at_level_def zl_newEvent_def then_Msg_def Msg_def ev_Msgf_def
        newLogBuilder_def run_done_def)
qed

lemma level_methods_unfold:
  assumes "(c, logMsg) \<in> set level_methods"
  shows "c \<in> set named_levels \<and> (\<exists>d. \<forall>rt p msg vs w.
           logMsg rt p msg vs w = then_Msg rt (at_level c d p w) msg vs w)"
  using assms
  by (auto simp: level_methods_def named_levels_def TraceMsg_def DebugMsg_def InfoMsg_def
      WarnMsg_def ErrorMsg_def FatalMsg_def PanicMsg_def Trace_def Debug_def Info_def
      Warn_def Error_def Fatal_def Panic_def)

lemma named_level_props:
  assumes "c \<in> set named_levels"
  shows "c \<noteq> Disabled" "c \<noteq> NoLevel" "\<not> level_less c GlobalLevel"
  using assms by (auto simp: named_levels_def level_defs level_less_def GlobalLevel_def)

lemma named_levels_sorted: "sorted_wrt level_less named_levels"
  by (simp add: named_levels_def level_defs level_less_def)

lemma lower_level_names: "n \<in> set level_names \<Longrightarrow> ToLower mapLower n = n"
  by (auto simp: level_names_def ToLower_def isASCII_def asciiLower_def)

lemma ParseLevel_invalid:
  "ToLower mapLower s \<notin> set level_names \<Longrightarrow>
   ParseLevel mapLower s =
     (InfoLevel, Some (Errorf (''invalid log level: '' @ ToLower mapLower s)))"
  by (simp add: ParseLevel_def level_names_def Let_def)

lemma ParseLevel_valid:
  "ToLower mapLower s \<in> set level_names \<Longrightarrow> snd (ParseLevel mapLower s) = None"
  by (auto simp: ParseLevel_def level_names_def Let_def)

lemma ex_world_eq:
  "ex_world =
     \<lparr>heap = [\<lparr>zl = \<lparr>zl_w = Raw (Sink 0), zl_level = WarnLevel,
                      zl_context = [(''service'', VStr ''payments'')],
                      zl_hooks = [timestampHook]\<rparr>,
                serviceName = ''payments''\<rparr>],
      TimeFieldFormat = RFC3339, written = []\<rparr>"
  by (simp add: ex_world_def New_result ex_cfg_def world0_def)

lemma deref_ex_world:
  "deref ex_world 0 =
     Some \<lparr>zl = \<lparr>zl_w = Raw (Sink 0), zl_level = WarnLevel,
                      zl_context = [(''service'', VStr ''payments'')],
                      zl_hooks = [timestampHook]\<rparr>,
                serviceName = ''payments''\<rparr>"
  by (simp add: ex_world_eq deref_def)

lemma store_frame [simp]:
  "TimeFieldFormat (store p l w) = TimeFieldFormat w" "written (store p l w) = written w"
  by (simp_all add: store_def)

lemma SetServiceName_result:
  "deref w p = Some l \<Longrightarrow>
   SetServiceName p n w = (Returns (), store p (l\<lparr>serviceName := n\<rparr>) w)"
  by (simp add: SetServiceName_def)

lemma SetLevel_result:
  "deref w p = Some l \<Longrightarrow>
   SetLevel p L w = (Returns (), store p (l\<lparr>zl := (zl l)\<lparr>zl_level := L\<rparr>\<rparr>) w)"
  by (simp add: SetLevel_def zl_Level_def)

lemma ex_child_world_eq:
  "WithFields 0 [(''request_id'', 12345)] ex_world = (Returns 1, ex_child_world)"
  by (simp add: ex_child_world_def WithFields_result [OF deref_ex_world]) (simp add: ex_world_eq)

lemma ex_child_world_val:
  "ex_child_world =
     \<lparr>heap = [\<lparr>zl = \<lparr>zl_w = Raw (Sink 0), zl_level = WarnLevel,
                      zl_context = [(''service'', VStr ''payments'')],
                      zl_hooks = [timestampHook]\<rparr>,
                serviceName = ''payments''\<rparr>,
              \<lparr>zl = \<lparr>zl_w = Raw (Sink 0), zl_level = WarnLevel,
                      zl_context = [(''service'', VStr ''payments''),
                                    (''request_id'', VInterface 12345)],
                      zl_hooks = [timestampHook]\<rparr>,
                serviceName = ''payments''\<rparr>],
      TimeFieldFormat = RFC3339, written = []\<rparr>"
proof -
  have "ex_child_world =
      ex_world\<lparr>heap := heap ex_world @
        [\<lparr>zl = \<lparr>zl_w = Raw (Sink 0), zl_level = WarnLevel,
                      zl_context = [(''service'', VStr ''payments'')] @
                         encode_fields [(''request_id'', 12345)],
                      zl_hooks = [timestampHook]\<rparr>,
                serviceName = ''payments''\<rparr>]\<rparr>"
    by (simp add: ex_child_world_def WithFields_result [OF deref_ex_world])
  then show ?thesis by (simp add: ex_world_eq encode_fields_def)
qed

lemma deref_ex_child_world:
  "deref ex_child_world 0 =
     Some \<lparr>zl = \<lparr>zl_w = Raw (Sink 0), zl_level = WarnLevel,
                      zl_context = [(''service'', VStr ''payments'')],
                      zl_hooks = [timestampHook]\<rparr>,
                serviceName = ''payments''\<rparr>"
  "deref ex_child_world 1 =
     Some \<lparr>zl = \<lparr>zl_w = Raw (Sink 0), zl_level = WarnLevel,
                      zl_context = [(''service'', VStr ''payments''),
                                    (''request_id'', VInterface 12345)],
                      zl_hooks = [timestampHook]\<rparr>,
                serviceName = ''payments''\<rparr>"
  by (simp_all add: ex_child_world_val deref_def)

lemma New_logger:
  "deref (snd (New cfg w)) (fst (New cfg w)) =
     Some \<lparr>zl = \<lparr>zl_w = (if cfg_Pretty cfg
                           then ConsoleWriter (case cfg_Output cfg of None \<Rightarrow> Stderr | Some s \<Rightarrow> s)
                                  (cfg_TimeFormat cfg)
                           else Raw (case cfg_Output cfg of None \<Rightarrow> Stderr | Some s \<Rightarrow> s)),
                   zl_level = cfg_Level cfg,
                   zl_context = [(''service'', VStr (if cfg_ServiceName cfg = [] then ''UNKNOWN-SERVICE''
                                               else cfg_ServiceName cfg))],
                   zl_hooks = timestampHook # (if cfg_WithCaller cfg then [callerHook] else [])\<rparr>,
             serviceName = (if cfg_ServiceName cfg = [] then ''UNKNOWN-SERVICE''
                            else cfg_ServiceName cfg)\<rparr>"
  by (simp add: New_result deref_def)

lemma New_frame:
  "deref w (fst (New cfg w)) = None"
  "deref w r = Some x \<Longrightarrow> deref (snd (New cfg w)) r = Some x"
  "TimeFieldFormat (snd (New cfg w)) = cfg_TimeFormat cfg"
  "written (snd (New cfg w)) = written w"
  by (auto simp: New_result deref_def nth_append split: if_splits)

lemma doPrintf0_plain: "CHR ''%'' \<notin> set t \<Longrightarrow> doPrintf0 t = t"
  by (induction t) auto

section \<open>Level parsing and formatting\<close>

text \<open>
  C6. For each of the seven named levels, parsing the name that \<^verbatim>\<open>String\<close> gives it
  returns that level and the nil error. \<^verbatim>\<open>ParseLevel\<close> is a total function: for every
  string whose lower-case form is not one of the recognised names (``warn'' and
  ``warning'' both stand for Warn) it returns the error ``invalid log level'' with that
  lower-case form, and for every other string it returns the nil error.
\<close>

theorem ParseLevel_String_roundtrip:
  "(\<forall>l \<in> set named_levels. ParseLevel mapLower (String l) = (l, None)) \<and>
   (\<forall>s. ToLower mapLower s \<notin> set level_names \<longrightarrow>
        snd (ParseLevel mapLower s) =
          Some (Errorf (''invalid log level: '' @ ToLower mapLower s))) \<and>
   (\<forall>s. ToLower mapLower s \<in> set level_names \<longrightarrow> snd (ParseLevel mapLower s) = None)"
proof (intro conjI ballI allI impI)
  fix l assume "l \<in> set named_levels"
  then show "ParseLevel mapLower (String l) = (l, None)"
    by (auto simp: named_levels_def String_def ParseLevel_def level_defs ToLower_def
        isASCII_def asciiLower_def)
next
  fix s assume "ToLower mapLower s \<notin> set level_names"
  then show "snd (ParseLevel mapLower s) =
      Some (Errorf (''invalid log level: '' @ ToLower mapLower s))"
    by (simp add: ParseLevel_invalid)
next
  fix s assume "ToLower mapLower s \<in> set level_names"
  then show "snd (ParseLevel mapLower s) = None"
    by (rule ParseLevel_valid)
qed

theorem ParseLevel_String_roundtrip_witness:
  "PanicLevel \<in> set named_levels \<and> ParseLevel id (String PanicLevel) = (PanicLevel, None) \<and>
   ToLower id ''Verbose'' \<notin> set level_names \<and>
   snd (ParseLevel id ''Verbose'') = Some (Errorf ''invalid log level: verbose'') \<and>
   ToLower id ''WARNING'' \<in> set level_names \<and> snd (ParseLevel id ''WARNING'') = None"
proof -
  have a: "PanicLevel \<in> set named_levels" by (simp add: named_levels_def)
  have b: "ToLower id ''Verbose'' = ''verbose''"
    by code_simp
  have c: "ToLower id ''WARNING'' = ''warning''"
    by code_simp
  have b': "ToLower id ''Verbose'' \<notin> set level_names" by (simp add: b level_names_def)
  have c': "ToLower id ''WARNING'' \<in> set level_names" by (simp add: c level_names_def)
  from ParseLevel_String_roundtrip [of id] a b' c' b show ?thesis by auto
qed

text \<open>
  C10. For every string that is not a recognised level name, \<^verbatim>\<open>ParseLevel\<close> returns
  the pair of \<^verbatim>\<open>InfoLevel\<close> and an error: the level that comes with the error is one of
  the named levels. \<^verbatim>\<open>NewFromEnv\<close>, which falls back to \<^verbatim>\<open>InfoLevel\<close> itself when
  \<^verbatim>\<open>LOG_LEVEL\<close> does not parse, builds a logger of minimum level Info in that case.
\<close>

theorem ParseLevel_error_level:
  assumes "ToLower mapLower s \<notin> set level_names"
  shows "(\<exists>e. ParseLevel mapLower s = (InfoLevel, Some e)) \<and>
         InfoLevel \<in> set named_levels \<and>
         (env ''LOG_LEVEL'' = Some s \<longrightarrow>
            map_option (\<lambda>l. zl_level (zl l))
              (deref (snd (NewFromEnv mapLower env w)) (fst (NewFromEnv mapLower env w)))
            = Some InfoLevel)"
proof (intro conjI impI)
  show "\<exists>e. ParseLevel mapLower s = (InfoLevel, Some e)"
    using ParseLevel_invalid [OF assms] by simp
  show "InfoLevel \<in> set named_levels" by (simp add: named_levels_def)
  assume "env ''LOG_LEVEL'' = Some s"
  then show "map_option (\<lambda>l. zl_level (zl l))
      (deref (snd (NewFromEnv mapLower env w)) (fst (NewFromEnv mapLower env w)))
      = Some InfoLevel"
    using ParseLevel_invalid [OF assms]
    by (simp add: NewFromEnv_def GetEnvStr_def Let_def New_result deref_def)
qed

theorem ParseLevel_error_level_witness:
  "ToLower id ''invalid_level'' \<notin> set level_names \<and>
   ParseLevel id ''invalid_level'' = (InfoLevel, Some (Errorf ''invalid log level: invalid_level'')) \<and>
   map_option (\<lambda>l. zl_level (zl l))
     (deref (snd (NewFromEnv id [''LOG_LEVEL'' \<mapsto> ''invalid_level''] (world0 :: nat world)))
        (fst (NewFromEnv id [''LOG_LEVEL'' \<mapsto> ''invalid_level''] (world0 :: nat world))))
   = Some InfoLevel"
proof -
  have l: "ToLower id ''invalid_level'' = ''invalid_level''"
    by (simp add: ToLower_def isASCII_def asciiLower_def)
  have h: "ToLower id ''invalid_level'' \<notin> set level_names"
    by (simp add: l level_names_def)
  have p: "ParseLevel id ''invalid_level'' =
      (InfoLevel, Some (Errorf ''invalid log level: invalid_level''))"
    using ParseLevel_invalid [OF h] by (simp add: l)
  from ParseLevel_error_level [OF h, of "[''LOG_LEVEL'' \<mapsto> ''invalid_level'']" "world0 :: nat world"] h p
  show ?thesis by simp
qed

section \<open>Level filtering\<close>

text \<open>
  C5. The named levels are ordered Trace, Debug, Info, Warn, Error, Fatal, Panic. A
  logger of minimum level \<open>zl_level (zl l)\<close> that is asked to log at a named level
  \<open>c\<close> below its minimum writes nothing; asked to log at a level that is not below
  its minimum (the minimum itself included) it writes exactly one record, to its own
  writer, carrying the level \<open>c\<close>. So a record is emitted if and only if its level
  is at least the threshold.
\<close>

theorem level_filter:
  assumes "deref w p = Some l" and "(c, logMsg) \<in> set level_methods"
  shows "sorted_wrt level_less named_levels \<and>
     (level_less c (zl_level (zl l)) \<longrightarrow> written (snd (logMsg rt p msg vs w)) = written w) \<and>
     (\<not> level_less c (zl_level (zl l)) \<longrightarrow>
        (\<exists>e. written (snd (logMsg rt p msg vs w)) = written w @ [e] \<and>
             en_writer e = zl_w (zl l) \<and> (''level'', VLevel c) \<in> set (en_fields e)))"
proof -
  from level_methods_unfold [OF assms(2)] obtain d where
    c: "c \<in> set named_levels" and
    m: "logMsg rt p msg vs w = then_Msg rt (at_level c d p w) msg vs w"
    by blast
  have sh: "zl_should (zl l) c = (\<not> level_less c (zl_level (zl l)))"
    using named_level_props(3) [OF c] by (simp add: zl_should_def)
  show ?thesis
    using named_level_props(1,2) [OF c] named_levels_sorted
    by (simp add: m at_level_then_Msg [OF assms(1)] sh level_field_def)
qed

theorem level_filter_witness:
  "deref ex_world 0 \<noteq> None \<and>
   (InfoLevel, InfoMsg :: nat runtime \<Rightarrow> _) \<in> set level_methods \<and>
   (WarnLevel, WarnMsg :: nat runtime \<Rightarrow> _) \<in> set level_methods \<and>
   level_less InfoLevel WarnLevel \<and>
   written (snd (InfoMsg ex_rt 0 ''x'' [] ex_world)) = [] \<and>
   (\<exists>e. written (snd (WarnMsg ex_rt 0 ''y'' [] ex_world)) = [e] \<and>
        en_writer e = Raw (Sink 0) \<and> (''level'', VLevel WarnLevel) \<in> set (en_fields e))"
proof -
  have i: "(InfoLevel, InfoMsg) \<in> set (level_methods :: (Level \<times> (nat runtime \<Rightarrow> _)) list)"
    by (simp add: level_methods_def)
  have w: "(WarnLevel, WarnMsg) \<in> set (level_methods :: (Level \<times> (nat runtime \<Rightarrow> _)) list)"
    by (simp add: level_methods_def)
  have lt: "level_less InfoLevel WarnLevel" "\<not> level_less WarnLevel WarnLevel"
    by (simp_all add: level_less_def level_defs)
  have e: "written ex_world = []" by (simp add: ex_world_eq)
  from level_filter [OF deref_ex_world i, of ex_rt "''x''" "[]"]
       level_filter [OF deref_ex_world w, of ex_rt "''y''" "[]"] i w lt e deref_ex_world
  show ?thesis by simp
qed

section \<open>Parent and child loggers\<close>

text \<open>
  C7. Let \<open>c\<close> be the child that \<^verbatim>\<open>WithFields\<close> derived from the logger \<open>p\<close>.
  The child is a struct of its own and starts with the service name of its parent. In
  any later state in which both exist, \<^verbatim>\<open>SetServiceName\<close> on the parent changes the
  name that \<^verbatim>\<open>ServiceName\<close> returns for the parent and leaves the child's as it was,
  and \<^verbatim>\<open>SetServiceName\<close> on the child changes the child's and leaves the parent's.
\<close>

theorem SetServiceName_parent_child:
  assumes "WithFields p m w = (Returns c, w1)"
    and "deref w2 p = Some lp" and "deref w2 c = Some lc"
  shows "c \<noteq> p \<and> ServiceName c w1 = ServiceName p w \<and>
     ServiceName p (snd (SetServiceName p n w2)) = Returns n \<and>
     ServiceName c (snd (SetServiceName p n w2)) = Returns (serviceName lc) \<and>
     ServiceName c (snd (SetServiceName c n w2)) = Returns n \<and>
     ServiceName p (snd (SetServiceName c n w2)) = Returns (serviceName lp)"
proof -
  have ne: "c \<noteq> p" by (rule WithFields_fresh [OF assms(1)])
  from WithFields_Returns [OF assms(1)] obtain l where
    l: "deref w p = Some l" and c: "c = length (heap w)" and
    w1: "w1 = w\<lparr>heap := heap w @
            [\<lparr>zl = (zl l)\<lparr>zl_context := zl_context (zl l) @ encode_fields m\<rparr>,
              serviceName = serviceName l\<rparr>]\<rparr>"
    by blast
  have same: "ServiceName c w1 = ServiceName p w"
    using l by (simp add: ServiceName_def deref_def c w1)
  have pp: "ServiceName p (snd (SetServiceName p n w2)) = Returns n"
    using deref_store_same [OF assms(2)]
    by (simp add: SetServiceName_result [OF assms(2)] ServiceName_def)
  have cp: "ServiceName c (snd (SetServiceName p n w2)) = Returns (serviceName lc)"
    using ne assms(3)
    by (simp add: SetServiceName_result [OF assms(2)] ServiceName_def deref_store_other)
  have cc: "ServiceName c (snd (SetServiceName c n w2)) = Returns n"
    using deref_store_same [OF assms(3)]
    by (simp add: SetServiceName_result [OF assms(3)] ServiceName_def)
  have pc: "ServiceName p (snd (SetServiceName c n w2)) = Returns (serviceName lp)"
    using ne assms(2)
    by (simp add: SetServiceName_result [OF assms(3)] ServiceName_def deref_store_other)
  from ne same pp cp cc pc show ?thesis by simp
qed

theorem SetServiceName_parent_child_witness:
  "WithFields 0 [(''request_id'', 12345)] ex_world = (Returns 1, ex_child_world) \<and>
   deref ex_child_world 0 \<noteq> None \<and> deref ex_child_world 1 \<noteq> None \<and>
   ServiceName 0 (snd (SetServiceName 0 ''billing'' ex_child_world)) = Returns ''billing'' \<and>
   ServiceName 1 (snd (SetServiceName 0 ''billing'' ex_child_world)) = Returns ''payments'' \<and>
   ServiceName 1 (snd (SetServiceName 1 ''billing'' ex_child_world)) = Returns ''billing'' \<and>
   ServiceName 0 (snd (SetServiceName 1 ''billing'' ex_child_world)) = Returns ''payments''"
  using SetServiceName_parent_child [OF ex_child_world_eq deref_ex_child_world, of "''billing''"]
    ex_child_world_eq deref_ex_child_world
  by simp

text \<open>
  C8. Let \<open>c\<close> be the child that \<^verbatim>\<open>WithFields\<close> derived from the logger \<open>p\<close>.
  In any later state in which both exist, \<^verbatim>\<open>SetLevel\<close> on the parent sets the
  parent's minimum level and leaves the child's struct as it was; every direct method
  called on the child then ends the same way and leaves the same records written as it
  would have without the call of \<^verbatim>\<open>SetLevel\<close>.
\<close>

theorem SetLevel_parent_child:
  assumes "WithFields p m w = (Returns c, w1)"
    and "deref w2 p = Some lp" and "deref w2 c = Some lc"
    and "(lv, logMsg) \<in> set level_methods"
  shows "deref (snd (SetLevel p L w2)) c = Some lc \<and>
     map_option (\<lambda>l. zl_level (zl l)) (deref (snd (SetLevel p L w2)) p) = Some L \<and>
     fst (logMsg rt c msg vs (snd (SetLevel p L w2))) = fst (logMsg rt c msg vs w2) \<and>
     written (snd (logMsg rt c msg vs (snd (SetLevel p L w2)))) =
       written (snd (logMsg rt c msg vs w2))"
proof -
  have ne: "c \<noteq> p" by (rule WithFields_fresh [OF assms(1)])
  let ?w3 = "snd (SetLevel p L w2)"
  have w3: "?w3 = store p (lp\<lparr>zl := (zl lp)\<lparr>zl_level := L\<rparr>\<rparr>) w2"
    by (simp add: SetLevel_result [OF assms(2)])
  have c3: "deref ?w3 c = Some lc"
    using ne assms(3) by (simp add: w3 deref_store_other)
  have p3: "map_option (\<lambda>l. zl_level (zl l)) (deref ?w3 p) = Some L"
    using deref_store_same [OF assms(2)] by (simp add: w3)
  from level_methods_unfold [OF assms(4)] obtain d where
    m: "\<And>w. logMsg rt c msg vs w = then_Msg rt (at_level lv d c w) msg vs w"
    by blast
  have fr: "TimeFieldFormat ?w3 = TimeFieldFormat w2" "written ?w3 = written w2"
    by (simp_all add: w3)
  have "fst (logMsg rt c msg vs ?w3) = fst (logMsg rt c msg vs w2) \<and>
     written (snd (logMsg rt c msg vs ?w3)) = written (snd (logMsg rt c msg vs w2))"
    unfolding m at_level_then_Msg [OF c3] at_level_then_Msg [OF assms(3)]
    by (simp add: fr)
  with c3 p3 show ?thesis by simp
qed

theorem SetLevel_parent_child_witness:
  "WithFields 0 [(''request_id'', 12345)] ex_world = (Returns 1, ex_child_world) \<and>
   deref ex_child_world 0 \<noteq> None \<and> deref ex_child_world 1 \<noteq> None \<and>
   (InfoLevel, InfoMsg :: nat runtime \<Rightarrow> _) \<in> set level_methods \<and>
   map_option (\<lambda>l. zl_level (zl l)) (deref (snd (SetLevel 0 DebugLevel ex_child_world)) 0)
     = Some DebugLevel \<and>
   map_option (\<lambda>l. zl_level (zl l)) (deref (snd (SetLevel 0 DebugLevel ex_child_world)) 1)
     = Some WarnLevel \<and>
   written (snd (InfoMsg ex_rt 1 ''x'' [] (snd (SetLevel 0 DebugLevel ex_child_world)))) =
     written (snd (InfoMsg ex_rt 1 ''x'' [] ex_child_world))"
proof -
  have i: "(InfoLevel, InfoMsg) \<in> set (level_methods :: (Level \<times> (nat runtime \<Rightarrow> _)) list)"
    by (simp add: level_methods_def)
  from SetLevel_parent_child [OF ex_child_world_eq deref_ex_child_world i,
      of DebugLevel ex_rt "''x''" "[]"]
    ex_child_world_eq deref_ex_child_world i
  show ?thesis by simp
qed

section \<open>The time format\<close>



section \<open>Construction\<close>

text \<open>
  C3, as the code has it. \<^verbatim>\<open>New\<close> allocates a new logger. A nil sink becomes the
  standard error stream and an empty service name becomes \<^verbatim>\<open>UNKNOWN-SERVICE\<close>, in
  the struct and in the \<^verbatim>\<open>service\<close> field of every record. The time format is not
  given a default: whatever the configuration holds, the empty string included, goes to
  the console writer (pretty mode) and to \<^verbatim>\<open>zerolog.TimeFieldFormat\<close>.
\<close>

theorem New_resolves_sink_and_service:
  "\<exists>l. deref (snd (New cfg w)) (fst (New cfg w)) = Some l \<and>
       deref w (fst (New cfg w)) = None \<and>
       sink_of (zl_w (zl l)) = (case cfg_Output cfg of None \<Rightarrow> Stderr | Some s \<Rightarrow> s) \<and>
       serviceName l = (if cfg_ServiceName cfg = [] then ''UNKNOWN-SERVICE''
                        else cfg_ServiceName cfg) \<and>
       zl_context (zl l) = [(''service'', VStr (serviceName l))] \<and>
       zl_level (zl l) = cfg_Level cfg \<and>
       zl_w (zl l) =
         (if cfg_Pretty cfg
          then ConsoleWriter (case cfg_Output cfg of None \<Rightarrow> Stderr | Some s \<Rightarrow> s)
                 (cfg_TimeFormat cfg)
          else Raw (case cfg_Output cfg of None \<Rightarrow> Stderr | Some s \<Rightarrow> s)) \<and>
       TimeFieldFormat (snd (New cfg w)) = cfg_TimeFormat cfg"
  by (simp add: New_logger New_frame)

theorem New_resolves_sink_and_service_witness:
  "\<exists>l. deref (snd (New ex_cfg_missing (world0 :: nat world))) 0 = Some l \<and>
       zl_w (zl l) = Raw Stderr \<and> serviceName l = ''UNKNOWN-SERVICE'' \<and>
       zl_context (zl l) = [(''service'', VStr ''UNKNOWN-SERVICE'')] \<and>
       TimeFieldFormat (snd (New ex_cfg_missing (world0 :: nat world))) = []"
proof -
  have f: "fst (New ex_cfg_missing (world0 :: nat world)) = 0"
    by (simp add: New_result world0_def)
  have c: "cfg_Output ex_cfg_missing = None" "cfg_ServiceName ex_cfg_missing = []"
    "cfg_TimeFormat ex_cfg_missing = []" "\<not> cfg_Pretty ex_cfg_missing"
    by (simp_all add: ex_cfg_missing_def)
  from New_resolves_sink_and_service [of ex_cfg_missing "world0 :: nat world"]
  show ?thesis by (auto simp: f c)
qed

text \<open>
  Against C3 as stated: before any logger is built the time format in force is RFC 3339,
  which is also the format of \<^verbatim>\<open>DefaultConfig\<close>. Building a logger from a
  configuration with an empty time format leaves the empty string in force (which
  zerolog reads as Unix time), and the console writer of a pretty logger gets the empty
  string too.
\<close>

theorem New_empty_time_format_counterexample:
  "TimeFieldFormat (world0 :: nat world) = RFC3339 \<and>
   cfg_TimeFormat DefaultConfig = RFC3339 \<and>
   TimeFieldFormat (snd (New ex_cfg_missing (world0 :: nat world))) = [] \<and>
   TimeFieldFormat (snd (New ex_cfg_missing (world0 :: nat world))) \<noteq> RFC3339 \<and>
   zl_w (zl (heap (snd (New (ex_cfg_missing\<lparr>cfg_Pretty := True\<rparr>) (world0 :: nat world))) ! 0))
     = ConsoleWriter Stderr []"
  by (simp add: New_result world0_def ex_cfg_missing_def DefaultConfig_def RFC3339_def)

section \<open>Derived loggers\<close>

text \<open>
  C4, as the code has it. \<^verbatim>\<open>WithFields\<close> on a logger \<open>p\<close> returns a logger at a
  new address whose context is the context of \<open>p\<close> followed by the supplied entries,
  in the order the map was ranged over; an entry whose key is already in the context is
  added after the existing one, which stays. Writer, level, hooks and service name are
  those of \<open>p\<close>. The struct of \<open>p\<close>, the time format and the records written are
  unchanged. Deriving again from the child appends again, and still leaves \<open>p\<close> and
  the child unchanged.
\<close>

theorem WithFields_appends:
  assumes "deref w p = Some l"
  shows "\<exists>c w1 c2 w2.
     WithFields p m w = (Returns c, w1) \<and> deref w c = None \<and>
     deref w1 c = Some \<lparr>zl = (zl l)\<lparr>zl_context := zl_context (zl l) @ encode_fields m\<rparr>,
                        serviceName = serviceName l\<rparr> \<and>
     deref w1 p = Some l \<and>
     TimeFieldFormat w1 = TimeFieldFormat w \<and> written w1 = written w \<and>
     WithFields c m2 w1 = (Returns c2, w2) \<and>
     deref w2 c2 = Some \<lparr>zl = (zl l)\<lparr>zl_context :=
                              zl_context (zl l) @ encode_fields m @ encode_fields m2\<rparr>,
                         serviceName = serviceName l\<rparr> \<and>
     deref w2 p = Some l \<and> deref w2 c = deref w1 c"
proof -
  let ?child = "\<lparr>zl = (zl l)\<lparr>zl_context := zl_context (zl l) @ encode_fields m\<rparr>,
                        serviceName = serviceName l\<rparr>"
  let ?c = "length (heap w)"
  let ?w1 = "w\<lparr>heap := heap w @ [?child]\<rparr>"
  let ?grand = "\<lparr>zl = (zl ?child)\<lparr>zl_context := zl_context (zl ?child) @ encode_fields m2\<rparr>,
                        serviceName = serviceName ?child\<rparr>"
  let ?c2 = "length (heap ?w1)"
  let ?w2 = "?w1\<lparr>heap := heap ?w1 @ [?grand]\<rparr>"
  have s1: "WithFields p m w = (Returns ?c, ?w1)"
    by (rule WithFields_result [OF assms])
  have p: "p < length (heap w)" "heap w ! p = l"
    using assms by (auto simp: deref_def split: if_splits)
  have dc: "deref ?w1 ?c = Some ?child" by (simp add: deref_def)
  have s2: "WithFields ?c m2 ?w1 = (Returns ?c2, ?w2)"
    by (rule WithFields_result [OF dc])
  have "deref w ?c = None" by (simp add: deref_def)
  moreover have "deref ?w1 p = Some l" using p by (simp add: deref_def nth_append)
  moreover have "deref ?w2 ?c2 =
      Some \<lparr>zl = (zl l)\<lparr>zl_context := zl_context (zl l) @ encode_fields m @ encode_fields m2\<rparr>,
                         serviceName = serviceName l\<rparr>"
    by (simp add: deref_def nth_append)
  moreover have "deref ?w2 p = Some l" using p by (simp add: deref_def nth_append)
  moreover have "deref ?w2 ?c = deref ?w1 ?c" by (simp add: deref_def nth_append)
  ultimately show ?thesis using s1 s2 dc
    by (intro exI [of _ ?c] exI [of _ ?w1] exI [of _ ?c2] exI [of _ ?w2]) simp
qed


theorem WithFields_appends_witness:
  "deref ex_world 0 \<noteq> None \<and>
   (\<exists>c w1 c2 w2.
     WithFields 0 [(''a'', 1)] ex_world = (Returns c, w1) \<and>
     WithFields c [(''b'', 2)] w1 = (Returns c2, w2) \<and>
     map_option (\<lambda>l. zl_context (zl l)) (deref w2 c2) =
       Some [(''service'', VStr ''payments''), (''a'', VInterface 1), (''b'', VInterface 2)] \<and>
     map_option (\<lambda>l. zl_context (zl l)) (deref w2 0) =
       Some [(''service'', VStr ''payments'')])"
proof -
  from WithFields_appends [OF deref_ex_world, of "[(''a'', 1)]" "[(''b'', 2)]"]
  obtain c w1 c2 w2 where
    "WithFields 0 [(''a'', 1)] ex_world = (Returns c, w1)"
    "WithFields c [(''b'', 2)] w1 = (Returns c2, w2)"
    "map_option (\<lambda>l. zl_context (zl l)) (deref w2 c2) =
       Some [(''service'', VStr ''payments''), (''a'', VInterface 1), (''b'', VInterface 2)]"
    "map_option (\<lambda>l. zl_context (zl l)) (deref w2 0) =
       Some [(''service'', VStr ''payments'')]"
    by (auto simp: encode_fields_def)
  then show ?thesis using deref_ex_world by blast
qed

text \<open>
  Against C4 as stated: deriving from the logger of service \<open>payments\<close> with the
  mapping \<^verbatim>\<open>{"service": 7}\<close> gives a context with two \<^verbatim>\<open>service\<close> entries, the
  parent's first. The merge in which the supplied key overrides the parent's would keep
  the supplied entry only.
\<close>

theorem WithFields_override_counterexample:
  "zl_context (zl (heap ex_world ! 0)) = [(''service'', VStr ''payments'')] \<and>
   fst (WithFields 0 [(''service'', 7)] ex_world) = Returns 1 \<and>
   zl_context (zl (heap (snd (WithFields 0 [(''service'', 7)] ex_world)) ! 1)) =
     [(''service'', VStr ''payments''), (''service'', VInterface 7)] \<and>
   merged_baseline (zl_context (zl (heap ex_world ! 0))) [(''service'', 7)] =
     [(''service'', VInterface 7)] \<and>
   zl_context (zl (heap (snd (WithFields 0 [(''service'', 7)] ex_world)) ! 1)) \<noteq>
     merged_baseline (zl_context (zl (heap ex_world ! 0))) [(''service'', 7)]"
proof -
  have a: "zl_context (zl (heap ex_world ! 0)) = [(''service'', VStr ''payments'')]"
    by (simp add: ex_world_eq)
  have b: "WithFields 0 [(''service'', 7)] ex_world =
      (Returns 1, ex_world\<lparr>heap := heap ex_world @
        [\<lparr>zl = \<lparr>zl_w = Raw (Sink 0), zl_level = WarnLevel,
                      zl_context = [(''service'', VStr ''payments''), (''service'', VInterface 7)],
                      zl_hooks = [timestampHook]\<rparr>,
                serviceName = ''payments''\<rparr>]\<rparr>)"
    by (simp add: WithFields_result [OF deref_ex_world] encode_fields_def) (simp add: ex_world_eq)
  have c: "length (heap ex_world) = 1" by (simp add: ex_world_eq)
  have m: "merged_baseline [(''service'', VStr ''payments'')] [(''service'', 7 :: nat)] =
      [(''service'', VInterface 7)]"
    by (simp add: merged_baseline_def encode_fields_def)
  show ?thesis
    by (simp add: a b m nth_append c)
qed

section \<open>The message\<close>




section \<open>The service name\<close>

text \<open>
  C1, on the code. The logger of the scenario was built with the service name
  \<open>payments\<close>. After \<^verbatim>\<open>SetServiceName("billing")\<close> the method \<^verbatim>\<open>ServiceName\<close>
  returns \<open>billing\<close>, but a record the logger then writes still carries the service
  \<open>payments\<close>: the field was put into the zerolog context by \<^verbatim>\<open>New\<close>, and
  \<^verbatim>\<open>SetServiceName\<close> assigns to the struct field only.
\<close>

theorem SetServiceName_records_keep_old_name:
  "ServiceName 0 ex_world = Returns ''payments'' \<and>
   ServiceName 0 (snd (SetServiceName 0 ''billing'' ex_world)) = Returns ''billing'' \<and>
   written (snd (WarnMsg ex_rt 0 ''x'' [] (snd (SetServiceName 0 ''billing'' ex_world)))) =
     [\<lparr>en_writer = Raw (Sink 0),
       en_fields = [(''level'', VLevel WarnLevel), (''service'', VStr ''payments''),
                    (''time'', VTime RFC3339 7), (''message'', VStr ''x'')]\<rparr>]"
proof -
  let ?l = "\<lparr>zl = \<lparr>zl_w = Raw (Sink 0), zl_level = WarnLevel,
                      zl_context = [(''service'', VStr ''payments'') :: string \<times> nat fvalue],
                      zl_hooks = [timestampHook]\<rparr>,
                serviceName = ''payments''\<rparr>"
  let ?w = "snd (SetServiceName 0 ''billing'' ex_world)"
  have w: "?w = store 0 (?l\<lparr>serviceName := ''billing''\<rparr>) ex_world"
    by (simp add: SetServiceName_result [OF deref_ex_world])
  have d: "deref ?w 0 = Some (?l\<lparr>serviceName := ''billing''\<rparr>)"
    unfolding w by (rule deref_store_same [OF deref_ex_world])
  have a: "ServiceName 0 ex_world = Returns ''payments''"
    by (simp add: ServiceName_def deref_ex_world)
  have b: "ServiceName 0 ?w = Returns ''billing''"
    by (simp add: ServiceName_def d)
  have f: "written ?w = []" "TimeFieldFormat ?w = RFC3339"
    unfolding w by (simp_all add: ex_world_eq)
  have s: "doPrintf0 ''x'' = ''x''" by (rule doPrintf0_plain) simp
  have c: "written (snd (WarnMsg ex_rt 0 ''x'' [] ?w)) =
     [\<lparr>en_writer = Raw (Sink 0),
       en_fields = [(''level'', VLevel WarnLevel), (''service'', VStr ''payments''),
                    (''time'', VTime RFC3339 7), (''message'', VStr ''x'')]\<rparr>]"
    unfolding WarnMsg_def Warn_def at_level_then_Msg [OF d]
    by (simp add: zl_should_def level_less_def GlobalLevel_def level_defs f level_field_def
        hook_fields_def message_field_def Sprintf_def s ex_rt_def)
  from a b c show ?thesis by simp
qed

end
